theory Spec2Isabelle
  imports Main "HOL-Library.Word"
begin

unbundle bit_operations_syntax

section \<open>Register fields (TMC2240.h)\<close>

text \<open>
  The C struct \<^verbatim>\<open>RegisterField\<close>: \<^verbatim>\<open>uint32_t mask; uint8_t shift; uint8_t address;
  bool isSigned\<close>. The selector of the mask is called \<open>mask_f\<close>, since \<open>mask\<close> is the
  library's constant for \<open>2 ^ n - 1\<close>.
\<close>

record RegisterField =
  mask_f :: "32 word"
  shift :: "8 word"
  address :: "8 word"
  isSigned :: bool

text \<open>
  A shift of a 32-bit operand by 32 or more has no defined result in C. The field codec
  does not check the shift count, so the model makes that case an error value of its own
  instead of the library's convention for \<open>push_bit\<close> and \<open>drop_bit\<close>. An access to
  one of the 128-entry register tables with an address beyond 127 is the second error, an
  access to the cache of a chip that has no cache slot the third.
\<close>

datatype tmc_error = ShiftCountOutOfRange | AddressOutOfRange | ChipOutOfRange

text \<open>
  \<^verbatim>\<open>
  static inline uint32_t tmc2240_fieldExtract(uint32_t data, RegisterField field)
  {
      uint32_t value = (data & field.mask) >> field.shift;
      if (field.isSigned)
      {
          uint32_t baseMask = field.mask >> field.shift;
          uint32_t signMask = baseMask & (~baseMask >> 1);
          value = (value ^ signMask) - signMask;
      }
      return value;
  }
  \<close>
  The complement binds tighter than the shift: \<^verbatim>\<open>~baseMask >> 1\<close> is
  \<^verbatim>\<open>(~baseMask) >> 1\<close>. The subtraction is on \<^verbatim>\<open>uint32_t\<close> and wraps.
\<close>

definition tmc2240_fieldExtract :: "32 word \<Rightarrow> RegisterField \<Rightarrow> tmc_error + 32 word" where
  "tmc2240_fieldExtract data field =
     (if 32 \<le> unat (shift field) then Inl ShiftCountOutOfRange
      else
        let value = drop_bit (unat (shift field)) (data AND mask_f field)
        in if isSigned field then
             let baseMask = drop_bit (unat (shift field)) (mask_f field);
                 signMask = baseMask AND drop_bit 1 (NOT baseMask)
             in Inr ((value XOR signMask) - signMask)
           else Inr value)"

text \<open>
  \<^verbatim>\<open>
  static inline uint32_t tmc2240_fieldUpdate(uint32_t data, RegisterField field, uint32_t value)
  {
      return (data & (~field.mask)) | ((value << field.shift) & field.mask);
  }
  \<close>
\<close>

definition tmc2240_fieldUpdate :: "32 word \<Rightarrow> RegisterField \<Rightarrow> 32 word \<Rightarrow> tmc_error + 32 word" where
  "tmc2240_fieldUpdate data field value =
     (if 32 \<le> unat (shift field) then Inl ShiftCountOutOfRange
      else Inr ((data AND NOT (mask_f field)) OR (push_bit (unat (shift field)) value AND mask_f field)))"


text \<open>
  \<^verbatim>\<open>
  static inline void tmc2240_fieldWrite(uint16_t icID, RegisterField field, uint32_t value)
  {
      uint32_t regValue = tmc2240_readRegister(icID, field.address);
      regValue = tmc2240_fieldUpdate(regValue, field, value);
      tmc2240_writeRegister(icID, field.address, regValue);
  }
  \<close>
  The header only declares \<^verbatim>\<open>tmc2240_readRegister\<close> and \<^verbatim>\<open>tmc2240_writeRegister\<close>. They
  are parameters of the model: functions on a state \<open>'s\<close> of the bus, the chips and the
  cache, of which nothing is assumed. The conversions between \<^verbatim>\<open>int32_t\<close> and
  \<^verbatim>\<open>uint32_t\<close> at the two calls keep the 32 bits.
\<close>

definition tmc2240_fieldWrite ::
  "('s \<Rightarrow> 16 word \<Rightarrow> 8 word \<Rightarrow> 32 word \<times> 's) \<Rightarrow> ('s \<Rightarrow> 16 word \<Rightarrow> 8 word \<Rightarrow> 32 word \<Rightarrow> 's) \<Rightarrow>
   's \<Rightarrow> 16 word \<Rightarrow> RegisterField \<Rightarrow> 32 word \<Rightarrow> tmc_error + 's" where
  "tmc2240_fieldWrite readRegister writeRegister s icID field value =
     (case readRegister s icID (address field) of
        (regValue, s1) \<Rightarrow>
          (case tmc2240_fieldUpdate regValue field value of
             Inl e \<Rightarrow> Inl e
           | Inr regValue' \<Rightarrow> Inr (writeRegister s1 icID (address field) regValue')))"

text \<open>
  The invariant the specification puts on a field descriptor: the mask bits are contiguous
  and the shift is the index of the lowest set bit of the mask. That is: the mask is a run
  of \<open>w\<close> ones, \<open>1 \<le> w\<close>, moved up by the shift, and the run ends inside the 32 bits.
\<close>

definition RegisterField_invariant :: "RegisterField \<Rightarrow> bool" where
  "RegisterField_invariant field =
     (\<exists>w \<in> {1..32}. unat (shift field) + w \<le> 32 \<and>
        mask_f field = push_bit (unat (shift field)) (mask w))"

section \<open>Access permissions and register presets (TMC2240.h)\<close>

definition TMC2240_IC_CACHE_COUNT :: nat where
  "TMC2240_IC_CACHE_COUNT = 1"

text \<open>
  Modelled from the spec: \<^verbatim>\<open>TMC2240_REGISTER_COUNT\<close> is defined in
  \<^verbatim>\<open>TMC2240_HW_Abstraction.h\<close>, which is not among the sources. The specification gives
  the address space 128 registers, and the initialisers of both tables below have 128
  entries.
\<close>

definition TMC2240_REGISTER_COUNT :: nat where
  "TMC2240_REGISTER_COUNT = 128"

definition TMC2240_ACCESS_DIRTY :: "8 word" where
  "TMC2240_ACCESS_DIRTY = 0x08"

definition TMC2240_ACCESS_READ :: "8 word" where
  "TMC2240_ACCESS_READ = 0x01"

definition TMC2240_ACCESS_W_PRESET :: "8 word" where
  "TMC2240_ACCESS_W_PRESET = 0x42"

text \<open>\<^verbatim>\<open>#define TMC2240_IS_READABLE(x) ((x) & TMC2240_ACCESS_READ)\<close>, true in C when not 0.\<close>

definition TMC2240_IS_READABLE :: "8 word \<Rightarrow> 8 word" where
  "TMC2240_IS_READABLE x = x AND TMC2240_ACCESS_READ"

text \<open>
  \<^verbatim>\<open>#define N_A 0\<close>: the marker the preset table shows in the slot of a register with a
  hardware preset. A slot without a default holds the literal \<^verbatim>\<open>0\<close>, named
  \<open>NO_DEFAULT\<close> here.
\<close>

definition N_A :: "32 word" where
  "N_A = 0"

definition NO_DEFAULT :: "32 word" where
  "NO_DEFAULT = 0"

definition R00 :: "32 word" where "R00 = 0x00002108"
definition R0A :: "32 word" where "R0A = 0x00000020"
definition R10 :: "32 word" where "R10 = 0x00070A03"
definition R11 :: "32 word" where "R11 = 0x0000000A"
definition R2B :: "32 word" where "R2B = 0x00000001"
definition R3A :: "32 word" where "R3A = 0x00010000"
definition R52 :: "32 word" where "R52 = 0x0B920F25"
definition R6C :: "32 word" where "R6C = 0x14410153"
definition R70 :: "32 word" where "R70 = 0xC44C001E"

text \<open>
  The permission bytes, one per address; the header writes \<^verbatim>\<open>____\<close> for \<open>0x00\<close>.
  Its comment gives their meaning:
  \<^verbatim>\<open>
  //   0x00: none (reserved)
  //   0x01: read
  //   0x02: write
  //   0x03: read/write
  //   0x13: read/write, separate functions/values for reading or writing
  //   0x23: read/write, flag register (write to clear)
  //   0x42: write, has hardware presets on reset
  \<close>
\<close>

definition tmc2240_registerAccess :: "8 word list" where
  "tmc2240_registerAccess =
   [0x03, 0x23, 0x01, 0x03, 0x03, 0x00, 0x00, 0x00, 0x00, 0x00, 0x03, 0x03, 0x00, 0x00, 0x00, 0x00,
    0x03, 0x03, 0x01, 0x03, 0x03, 0x03, 0x00, 0x00, 0x00, 0x00, 0x00, 0x00, 0x00, 0x00, 0x00, 0x00,
    0x00, 0x00, 0x00, 0x00, 0x00, 0x00, 0x00, 0x00, 0x00, 0x00, 0x00, 0x00, 0x00, 0x03, 0x00, 0x00,
    0x00, 0x00, 0x00, 0x00, 0x00, 0x00, 0x00, 0x00, 0x03, 0x03, 0x03, 0x23, 0x01, 0x00, 0x00, 0x00,
    0x00, 0x00, 0x00, 0x00, 0x00, 0x00, 0x00, 0x00, 0x00, 0x00, 0x00, 0x00, 0x00, 0x00, 0x00, 0x00,
    0x01, 0x01, 0x03, 0x00, 0x00, 0x00, 0x00, 0x00, 0x00, 0x00, 0x00, 0x00, 0x00, 0x00, 0x00, 0x00,
    0x42, 0x42, 0x42, 0x42, 0x42, 0x42, 0x42, 0x42, 0x42, 0x42, 0x01, 0x01, 0x03, 0x03, 0x00, 0x01,
    0x03, 0x01, 0x01, 0x00, 0x03, 0x01, 0x01, 0x00, 0x00, 0x00, 0x00, 0x00, 0x00, 0x00, 0x00, 0x00]"

definition tmc2240_sampleRegisterPreset :: "32 word list" where
  "tmc2240_sampleRegisterPreset =
   [R00, 0,   0,   0,   0,   0,   0,   0,   0,   0,   R0A, 0,   0,   0,   0,   0,
    R10, R11, 0,   0,   0,   0,   0,   0,   0,   0,   0,   R2B, 0,   0,   0,   0,
    0,   0,   0,   0,   0,   0,   0,   0,   0,   0,   0,   0,   0,   0,   0,   0,
    0,   0,   0,   0,   0,   0,   0,   0,   0,   0,   R3A, 0,   0,   0,   0,   0,
    0,   0,   0,   0,   0,   0,   0,   0,   0,   0,   0,   0,   0,   0,   0,   0,
    0,   0,   R52, 0,   0,   0,   0,   0,   0,   0,   0,   0,   0,   0,   0,   0,
    N_A, N_A, N_A, N_A, N_A, N_A, N_A, N_A, N_A, N_A, 0,   0,   R6C, 0,   0,   0,
    R70, 0,   0,   0,   0,   0,   0,   0,   0,   0,   0,   0,   0,   0,   0,   0]"

text \<open>
  The classification of a permission byte, after the header's comment and with the
  specification's names for the seven classes. A byte the comment does not list has no
  class.
\<close>

datatype AccessPermission =
  NoPermission | Read | Write | ReadWrite | ReadWriteSplit | Flag | WriteWithHardwarePreset

definition permission_of_byte :: "8 word \<Rightarrow> AccessPermission option" where
  "permission_of_byte x =
     (if x = 0x00 then Some NoPermission
      else if x = 0x01 then Some Read
      else if x = 0x02 then Some Write
      else if x = 0x03 then Some ReadWrite
      else if x = 0x13 then Some ReadWriteSplit
      else if x = 0x23 then Some Flag
      else if x = 0x42 then Some WriteWithHardwarePreset
      else None)"

definition permission :: "8 word \<Rightarrow> AccessPermission option" where
  "permission addr =
     (if unat addr < TMC2240_REGISTER_COUNT
      then permission_of_byte (tmc2240_registerAccess ! unat addr) else None)"

text \<open>
  The classes the specification calls physically readable in its description of the
  cache's READ: Read, ReadWrite and the split register.
\<close>

definition spec_physically_readable :: "AccessPermission \<Rightarrow> bool" where
  "spec_physically_readable p = (p = Read \<or> p = ReadWrite \<or> p = ReadWriteSplit)"

definition physically_readable :: "8 word \<Rightarrow> bool" where
  "physically_readable addr =
     (case permission addr of Some p \<Rightarrow> spec_physically_readable p | None \<Rightarrow> False)"

definition write_only :: "AccessPermission \<Rightarrow> bool" where
  "write_only p = (p = Write \<or> p = WriteWithHardwarePreset)"

section \<open>The shadow cache\<close>

text \<open>
  \<^verbatim>\<open>
  typedef enum {
      TMC2240_CACHE_READ,
      TMC2240_CACHE_WRITE,
      // Special operation: Put content into the cache without marking the entry as dirty.
      // Only used to initialize the cache with hardware defaults. This will allow reading
      // from write-only registers that have a value inside them on reset. When using this
      // operation, a restore will *not* rewrite that filled register!
      TMC2240_CACHE_FILL_DEFAULT,
  } TMC2240CacheOp;
  \<close>
\<close>

datatype TMC2240CacheOp =
  TMC2240_CACHE_READ | TMC2240_CACHE_WRITE | TMC2240_CACHE_FILL_DEFAULT

text \<open>
  The header declares the storage of the cache,
  \<^verbatim>\<open>
  extern uint8_t tmc2240_dirtyBits[TMC2240_IC_CACHE_COUNT][TMC2240_REGISTER_COUNT/8];
  extern int32_t tmc2240_shadowRegister[TMC2240_IC_CACHE_COUNT][TMC2240_REGISTER_COUNT];
  \<close>
  and the specification describes it as one shadow value and one dirty flag for each pair
  of a chip and an address. The state is these two tables, as functions of the chip and
  the address; the operations use them within the bounds of the arrays only. The dirty
  flags are booleans: how the flags are packed into bytes is not a matter of the
  specification.
\<close>

record CacheState =
  tmc2240_shadowRegister :: "16 word \<Rightarrow> 8 word \<Rightarrow> 32 word"
  tmc2240_dirtyBits :: "16 word \<Rightarrow> 8 word \<Rightarrow> bool"

text \<open>
  Modelled from the spec: the body of \<^verbatim>\<open>tmc2240_cache\<close>, which the header declares as
  \<^verbatim>\<open>bool tmc2240_cache(uint16_t icID, TMC2240CacheOp operation, uint8_t address, uint32_t *value)\<close>
  and whose definition is not among the sources. After the specification:
  \<^item> READ: if the access policy classifies the register as physically readable, the cache
    declines; otherwise it returns the shadow value as the logical value;
  \<^item> WRITE: stores the value into the shadow value and sets the dirty flag,
    unconditionally;
  \<^item> FILL_DEFAULT: stores the value into the shadow value without setting the dirty flag.
  Physically readable are, in the words of the specification, the classes Read, ReadWrite
  and the split register; the class of a register is that of its entry in
  \<^verbatim>\<open>tmc2240_registerAccess\<close>. The header's macro \<^verbatim>\<open>TMC2240_IS_READABLE\<close> tests the read
  bit, which a flag register (\<open>0x23\<close>) has as well; the specification does not list the
  flag class, and the model follows the specification. The result is the returned
  \<^verbatim>\<open>bool\<close> (false when the cache declines), the content of \<^verbatim>\<open>*value\<close> afterwards and
  the new state. A chip without a slot in the arrays and an address outside the tables are
  errors: the specification leaves both undefined.
\<close>

definition tmc2240_cache ::
  "CacheState \<Rightarrow> 16 word \<Rightarrow> TMC2240CacheOp \<Rightarrow> 8 word \<Rightarrow> 32 word \<Rightarrow>
   tmc_error + (bool \<times> 32 word \<times> CacheState)" where
  "tmc2240_cache st icID operation addr value =
     (if TMC2240_IC_CACHE_COUNT \<le> unat icID then Inl ChipOutOfRange
      else if TMC2240_REGISTER_COUNT \<le> unat addr then Inl AddressOutOfRange
      else
        (case operation of
           TMC2240_CACHE_READ \<Rightarrow>
             if physically_readable addr
             then Inr (False, value, st)
             else Inr (True, tmc2240_shadowRegister st icID addr, st)
         | TMC2240_CACHE_WRITE \<Rightarrow>
             Inr (True, value,
               st\<lparr>tmc2240_shadowRegister :=
                    (tmc2240_shadowRegister st)(icID := (tmc2240_shadowRegister st icID)(addr := value)),
                  tmc2240_dirtyBits :=
                    (tmc2240_dirtyBits st)(icID := (tmc2240_dirtyBits st icID)(addr := True))\<rparr>)
         | TMC2240_CACHE_FILL_DEFAULT \<Rightarrow>
             Inr (True, value,
               st\<lparr>tmc2240_shadowRegister :=
                    (tmc2240_shadowRegister st)(icID := (tmc2240_shadowRegister st icID)(addr := value))\<rparr>)))"

text \<open>
  Modelled from the spec: the restore algorithm, which belongs to a layer above the
  header. After the specification: for the addresses 0 to 127 in ascending order, for each
  one whose dirty flag is set and whose permission is not none, call
  \<^verbatim>\<open>writeRegister(icID, address, shadowValue)\<close>. The model gives the list of these calls,
  as pairs of the address and the value, and changes no state: restore does not clear the
  dirty flags.
\<close>

definition restore_writes :: "CacheState \<Rightarrow> 16 word \<Rightarrow> (8 word \<times> 32 word) list" where
  "restore_writes st icID =
     map (\<lambda>a. (a, tmc2240_shadowRegister st icID a))
       (filter (\<lambda>a. tmc2240_dirtyBits st icID a \<and> tmc2240_registerAccess ! unat a \<noteq> 0x00)
          (map of_nat [0..<TMC2240_REGISTER_COUNT]))"

text \<open>The cache at program start: C initialises both arrays with zeros.\<close>

definition cache_at_startup :: CacheState where
  "cache_at_startup =
     \<lparr>tmc2240_shadowRegister = (\<lambda>icID addr. 0), tmc2240_dirtyBits = (\<lambda>icID addr. False)\<rparr>"

text \<open>
  A register bank that stands for the chip behind \<^verbatim>\<open>tmc2240_readRegister\<close> and
  \<^verbatim>\<open>tmc2240_writeRegister\<close> when a field write is run on an example: every register can
  be read back, and a write replaces the content.
\<close>

definition bank_readRegister ::
  "(8 word \<Rightarrow> 32 word) \<Rightarrow> 16 word \<Rightarrow> 8 word \<Rightarrow> 32 word \<times> (8 word \<Rightarrow> 32 word)" where
  "bank_readRegister bank icID addr = (bank addr, bank)"

definition bank_writeRegister ::
  "(8 word \<Rightarrow> 32 word) \<Rightarrow> 16 word \<Rightarrow> 8 word \<Rightarrow> 32 word \<Rightarrow> (8 word \<Rightarrow> 32 word)" where
  "bank_writeRegister bank icID addr value = bank(addr := value)"

definition bank_after_reset :: "8 word \<Rightarrow> 32 word" where
  "bank_after_reset addr = (if addr = 0x00 then R00 else 0)"

text \<open>
  Field descriptors of \<^verbatim>\<open>TMC2225_HW_Abstraction.h\<close>, the inputs of the examples below:
  \<^verbatim>\<open>
  #define TMC2225_GCONF         0x00
  #define TMC2225_IHOLD_IRUN    0x10
  #define TMC2225_MSCURACT      0x6B
  #define TMC2225_I_SCALE_ANALOG_FIELD ((RegisterField) {0x00000001, 0, TMC2225_GCONF, false})
  #define TMC2225_IHOLD_FIELD          ((RegisterField) {0x0000001F, 0, TMC2225_IHOLD_IRUN, false})
  #define TMC2225_IRUN_FIELD           ((RegisterField) {0x00001F00, 8, TMC2225_IHOLD_IRUN, false})
  #define TMC2225_CUR_B_FIELD          ((RegisterField) {0x01FF0000, 16, TMC2225_MSCURACT, true})
  \<close>
  with the mask and shift macros of each field written out.
\<close>

definition TMC2225_I_SCALE_ANALOG_FIELD :: RegisterField where
  "TMC2225_I_SCALE_ANALOG_FIELD =
     \<lparr>mask_f = 0x00000001, shift = 0, address = 0x00, isSigned = False\<rparr>"

definition TMC2225_IHOLD_FIELD :: RegisterField where
  "TMC2225_IHOLD_FIELD = \<lparr>mask_f = 0x0000001F, shift = 0, address = 0x10, isSigned = False\<rparr>"

definition TMC2225_IRUN_FIELD :: RegisterField where
  "TMC2225_IRUN_FIELD = \<lparr>mask_f = 0x00001F00, shift = 8, address = 0x10, isSigned = False\<rparr>"

definition TMC2225_CUR_B_FIELD :: RegisterField where
  "TMC2225_CUR_B_FIELD = \<lparr>mask_f = 0x01FF0000, shift = 16, address = 0x6B, isSigned = True\<rparr>"

section \<open>Facts about bits\<close>

lemma update_keeps_outside:
  "((r AND NOT m) OR (push_bit s v AND m)) AND NOT m = r AND NOT (m::32 word)"
  by (rule bit_word_eqI) (auto simp: bit_simps)

lemma update_sets_inside:
  "((r AND NOT m) OR (push_bit s v AND m)) AND m = push_bit s v AND (m::32 word)"
  by (rule bit_word_eqI) (auto simp: bit_simps)

lemma push_truncated:
  "push_bit s (v AND drop_bit s m) AND m = push_bit s v AND (m::32 word)"
  by (rule bit_word_eqI) (auto simp: bit_simps)

lemma drop_pushed:
  "drop_bit s (push_bit s v AND m) = v AND drop_bit s (m::32 word)"
  by (rule bit_word_eqI) (auto simp: bit_simps dest: bit_imp_le_length)

lemma disjoint_updates_commute:
  fixes r a b m1 m2 :: "32 word"
  assumes "m1 AND m2 = 0"
  shows "(((r AND NOT m1) OR (a AND m1)) AND NOT m2) OR (b AND m2) =
         (((r AND NOT m2) OR (b AND m2)) AND NOT m1) OR (a AND m1)"
  using assms by (auto simp: bit_eq_iff bit_simps)

lemma invariant_shift_in_range:
  "RegisterField_invariant F \<Longrightarrow> unat (shift F) < 32"
  by (auto simp: RegisterField_invariant_def)

text \<open>
  The invariant says what the specification's words say: the bit at the shift is set, no
  bit below it is, and every bit between two set bits is set.
\<close>

lemma bit_run:
  "bit (push_bit s (mask w) :: 32 word) n = (s \<le> n \<and> n < s + w \<and> n < 32)"
  by (auto simp: bit_simps)

lemma RegisterField_invariant_contiguous:
  assumes "RegisterField_invariant F"
  shows "bit (mask_f F) (unat (shift F)) \<and>
         (\<forall>i < unat (shift F). \<not> bit (mask_f F) i) \<and>
         (\<forall>i j k. i \<le> j \<and> j \<le> k \<and> bit (mask_f F) i \<and> bit (mask_f F) k
            \<longrightarrow> bit (mask_f F) j)"
  using assms unfolding RegisterField_invariant_def
  by (auto simp: bit_run)

lemma contiguous_RegisterField_invariant:
  assumes low: "bit (mask_f F) (unat (shift F))"
    and below: "\<forall>i < unat (shift F). \<not> bit (mask_f F) i"
    and contiguous: "\<forall>i j k. i \<le> j \<and> j \<le> k \<and> bit (mask_f F) i \<and> bit (mask_f F) k
                       \<longrightarrow> bit (mask_f F) j"
  shows "RegisterField_invariant F"
proof -
  let ?m = "mask_f F" and ?s = "unat (shift F)"
  let ?B = "{k. bit ?m k}"
  have fin: "finite ?B"
    by (auto dest: bit_imp_le_length intro: finite_subset [of _ "{..<32}"])
  from low have ne: "?B \<noteq> {}"
    by auto
  define h where "h = Max ?B"
  have top: "bit ?m h"
    using Max_in [OF fin ne] by (simp add: h_def)
  have highest: "k \<le> h" if "bit ?m k" for k
    using Max_ge [OF fin, of k] that by (simp add: h_def)
  from top have h32: "h < 32"
    by (auto dest: bit_imp_le_length)
  from highest [OF low] have sh: "?s \<le> h" .
  define w where "w = h - ?s + 1"
  have "?m = push_bit ?s (mask w)"
  proof (rule bit_word_eqI)
    fix n
    assume "n < LENGTH(32)"
    show "bit ?m n = bit (push_bit ?s (mask w) :: 32 word) n"
    proof
      assume b: "bit ?m n"
      have "?s \<le> n"
        using below b by (meson not_le)
      moreover have "n \<le> h"
        by (rule highest [OF b])
      ultimately show "bit (push_bit ?s (mask w) :: 32 word) n"
        using h32 by (simp add: bit_run w_def)
    next
      assume "bit (push_bit ?s (mask w) :: 32 word) n"
      then have "?s \<le> n" and "n \<le> h"
        using sh by (auto simp: bit_run w_def)
      with contiguous low top show "bit ?m n"
        by blast
    qed
  qed
  moreover have "w \<in> {1..32}" and "?s + w \<le> 32"
    using sh h32 by (auto simp: w_def)
  ultimately show ?thesis
    unfolding RegisterField_invariant_def by blast
qed

lemma fieldUpdate_in_range:
  "unat (shift F) < 32 \<Longrightarrow>
   tmc2240_fieldUpdate r F v =
     Inr ((r AND NOT (mask_f F)) OR (push_bit (unat (shift F)) v AND mask_f F))"
  by (simp add: tmc2240_fieldUpdate_def)

lemma fieldExtract_unsigned:
  "unat (shift F) < 32 \<Longrightarrow> \<not> isSigned F \<Longrightarrow>
   tmc2240_fieldExtract data F = Inr (drop_bit (unat (shift F)) (data AND mask_f F))"
  unfolding tmc2240_fieldExtract_def Let_def
  by (simp only: not_le [symmetric] if_False if_True)

section \<open>Properties of the field codec\<close>

text \<open>
  C1. For every field \<open>F\<close> whose mask bits are contiguous and whose shift is the index of
  the lowest set bit of the mask, with \<open>F\<close> unsigned, and for every register value \<open>r\<close>
  and value \<open>v\<close>: the update succeeds, and extracting the field from the updated register
  gives \<open>v & (F.mask >> F.shift)\<close>.
\<close>

theorem fieldExtract_fieldUpdate_unsigned:
  assumes "RegisterField_invariant F" and "\<not> isSigned F"
  shows "\<exists>u. tmc2240_fieldUpdate r F v = Inr u \<and>
           tmc2240_fieldExtract u F = Inr (v AND drop_bit (unat (shift F)) (mask_f F))"
proof -
  from assms(1) have s: "unat (shift F) < 32"
    by (rule invariant_shift_in_range)
  let ?u = "(r AND NOT (mask_f F)) OR (push_bit (unat (shift F)) v AND mask_f F)"
  have "tmc2240_fieldExtract ?u F = Inr (v AND drop_bit (unat (shift F)) (mask_f F))"
    by (simp only: fieldExtract_unsigned [OF s assms(2)] update_sets_inside drop_pushed)
  with fieldUpdate_in_range [OF s] show ?thesis
    by blast
qed

theorem fieldExtract_fieldUpdate_unsigned_witness:
  "RegisterField_invariant TMC2225_IRUN_FIELD \<and> \<not> isSigned TMC2225_IRUN_FIELD \<and>
   tmc2240_fieldUpdate R10 TMC2225_IRUN_FIELD 0xFFF = Inr 0x00071F03 \<and>
   tmc2240_fieldExtract 0x00071F03 TMC2225_IRUN_FIELD = Inr 0x1F"
proof -
  have inv: "RegisterField_invariant TMC2225_IRUN_FIELD"
    unfolding RegisterField_invariant_def TMC2225_IRUN_FIELD_def
    by (rule bexI [of _ 5]) (simp_all add: mask_eq_exp_minus_1 push_bit_eq_mult)
  have uns: "\<not> isSigned TMC2225_IRUN_FIELD"
    by (simp add: TMC2225_IRUN_FIELD_def)
  have upd: "tmc2240_fieldUpdate R10 TMC2225_IRUN_FIELD 0xFFF = Inr 0x00071F03"
    by (simp add: tmc2240_fieldUpdate_def TMC2225_IRUN_FIELD_def R10_def)
  from fieldExtract_fieldUpdate_unsigned [OF inv uns, of R10 "0xFFF"] upd
  have "tmc2240_fieldExtract 0x00071F03 TMC2225_IRUN_FIELD = Inr 0x1F"
    by (simp add: TMC2225_IRUN_FIELD_def)
  with inv uns upd show ?thesis
    by simp
qed

text \<open>
  C6. For a field with mask \<open>0x01FF0000\<close> and shift 16, and a register whose bits under
  the mask are \<open>0x1FF\<close>: the extraction gives \<open>-1\<close> as a 32-bit two's-complement value
  when the field is signed, and 511 when it is unsigned.
\<close>

theorem fieldExtract_sign:
  assumes "mask_f F = 0x01FF0000" and "shift F = 16" and "data AND 0x01FF0000 = 0x01FF0000"
  shows "\<exists>x. tmc2240_fieldExtract data F = Inr x \<and>
           (if isSigned F then x = - 1 \<and> sint x = - 1 else x = 511 \<and> unat x = 511)"
  using assms by (simp add: tmc2240_fieldExtract_def)

theorem fieldExtract_sign_witness:
  "mask_f TMC2225_CUR_B_FIELD = 0x01FF0000 \<and> shift TMC2225_CUR_B_FIELD = 16 \<and>
   isSigned TMC2225_CUR_B_FIELD \<and> 0x01FF0000 AND 0x01FF0000 = (0x01FF0000 :: 32 word) \<and>
   tmc2240_fieldExtract 0x01FF0000 TMC2225_CUR_B_FIELD = Inr (- 1) \<and>
   tmc2240_fieldExtract 0x01FF0000 (TMC2225_CUR_B_FIELD\<lparr>isSigned := False\<rparr>) = Inr 511"
  using fieldExtract_sign [of TMC2225_CUR_B_FIELD "0x01FF0000"]
    fieldExtract_sign [of "TMC2225_CUR_B_FIELD\<lparr>isSigned := False\<rparr>" "0x01FF0000"]
  by (simp add: TMC2225_CUR_B_FIELD_def)

text \<open>
  C7. For every register value \<open>r\<close>, field \<open>F\<close> (with a shift count below 32, as a
  field descriptor has) and value \<open>v\<close>: the update leaves every bit outside the mask as
  it is in \<open>r\<close>, and the bits of \<open>v\<close> wider than the field are cut off by the mask: the
  bits under the mask are those of \<open>v << shift\<close>, and any value that agrees with \<open>v\<close>
  on the bits of the field gives the same register.
\<close>

theorem fieldUpdate_frame:
  assumes "unat (shift F) < 32"
  shows "\<exists>u. tmc2240_fieldUpdate r F v = Inr u \<and>
           u AND NOT (mask_f F) = r AND NOT (mask_f F) \<and>
           u AND mask_f F = push_bit (unat (shift F)) v AND mask_f F \<and>
           (\<forall>v'. v' AND drop_bit (unat (shift F)) (mask_f F) =
                   v AND drop_bit (unat (shift F)) (mask_f F)
              \<longrightarrow> tmc2240_fieldUpdate r F v' = Inr u)"
proof -
  let ?s = "unat (shift F)" and ?m = "mask_f F"
  let ?u = "(r AND NOT ?m) OR (push_bit ?s v AND ?m)"
  have wide: "tmc2240_fieldUpdate r F v' = Inr ?u"
    if "v' AND drop_bit ?s ?m = v AND drop_bit ?s ?m" for v'
  proof -
    have "push_bit ?s v' AND ?m = push_bit ?s (v' AND drop_bit ?s ?m) AND ?m"
      by (simp only: push_truncated)
    also have "\<dots> = push_bit ?s v AND ?m"
      by (simp only: that push_truncated)
    finally have "push_bit ?s v' AND ?m = push_bit ?s v AND ?m" .
    then show ?thesis
      by (simp only: fieldUpdate_in_range [OF assms])
  qed
  have "tmc2240_fieldUpdate r F v = Inr ?u"
    by (rule fieldUpdate_in_range [OF assms])
  moreover have "?u AND NOT ?m = r AND NOT ?m"
    by (rule update_keeps_outside)
  moreover have "?u AND ?m = push_bit ?s v AND ?m"
    by (rule update_sets_inside)
  ultimately show ?thesis
    using wide by blast
qed

theorem fieldUpdate_frame_witness:
  "unat (shift TMC2225_IRUN_FIELD) < 32 \<and>
   tmc2240_fieldUpdate 0xFFFFFFFF TMC2225_IRUN_FIELD 0xABC0A = Inr 0xFFFFEAFF \<and>
   0xFFFFEAFF AND NOT (mask_f TMC2225_IRUN_FIELD) = 0xFFFFFFFF AND NOT (mask_f TMC2225_IRUN_FIELD) \<and>
   tmc2240_fieldUpdate 0xFFFFFFFF TMC2225_IRUN_FIELD 0x0A = Inr 0xFFFFEAFF"
proof -
  have s: "unat (shift TMC2225_IRUN_FIELD) < 32"
    by (simp add: TMC2225_IRUN_FIELD_def)
  have u: "tmc2240_fieldUpdate 0xFFFFFFFF TMC2225_IRUN_FIELD 0xABC0A = Inr 0xFFFFEAFF"
    by (simp add: tmc2240_fieldUpdate_def TMC2225_IRUN_FIELD_def)
  have agree: "(0x0A :: 32 word) AND drop_bit (unat (shift TMC2225_IRUN_FIELD)) (mask_f TMC2225_IRUN_FIELD)
      = 0xABC0A AND drop_bit (unat (shift TMC2225_IRUN_FIELD)) (mask_f TMC2225_IRUN_FIELD)"
    by (simp add: TMC2225_IRUN_FIELD_def)
  from fieldUpdate_frame [OF s, of "0xFFFFFFFF" "0xABC0A"]
  obtain x where x: "tmc2240_fieldUpdate 0xFFFFFFFF TMC2225_IRUN_FIELD 0xABC0A = Inr x"
    and frame: "x AND NOT (mask_f TMC2225_IRUN_FIELD) = 0xFFFFFFFF AND NOT (mask_f TMC2225_IRUN_FIELD)"
    and wide: "\<forall>v'. v' AND drop_bit (unat (shift TMC2225_IRUN_FIELD)) (mask_f TMC2225_IRUN_FIELD) =
                  0xABC0A AND drop_bit (unat (shift TMC2225_IRUN_FIELD)) (mask_f TMC2225_IRUN_FIELD)
              \<longrightarrow> tmc2240_fieldUpdate 0xFFFFFFFF TMC2225_IRUN_FIELD v' = Inr x"
    by blast
  from x u have "x = 0xFFFFEAFF"
    by simp
  with s u frame wide agree show ?thesis
    by blast
qed

text \<open>
  C10. For every register value \<open>r\<close>, fields \<open>F1\<close> and \<open>F2\<close> with disjoint masks (and
  shift counts below 32) and values \<open>v1\<close>, \<open>v2\<close>: updating \<open>F1\<close> and then \<open>F2\<close> gives
  the same register as updating \<open>F2\<close> and then \<open>F1\<close>.
\<close>

theorem fieldUpdate_disjoint_commute:
  assumes "mask_f F1 AND mask_f F2 = 0" and "unat (shift F1) < 32" and "unat (shift F2) < 32"
  shows "\<exists>a b w. tmc2240_fieldUpdate r F1 v1 = Inr a \<and> tmc2240_fieldUpdate a F2 v2 = Inr w \<and>
                 tmc2240_fieldUpdate r F2 v2 = Inr b \<and> tmc2240_fieldUpdate b F1 v1 = Inr w"
  using disjoint_updates_commute [OF assms(1)]
  by (simp add: fieldUpdate_in_range [OF assms(2)] fieldUpdate_in_range [OF assms(3)])

theorem fieldUpdate_disjoint_commute_witness:
  "mask_f TMC2225_IRUN_FIELD AND mask_f TMC2225_IHOLD_FIELD = 0 \<and>
   unat (shift TMC2225_IRUN_FIELD) < 32 \<and> unat (shift TMC2225_IHOLD_FIELD) < 32 \<and>
   tmc2240_fieldUpdate 0 TMC2225_IRUN_FIELD 31 = Inr 0x00001F00 \<and>
   tmc2240_fieldUpdate 0x00001F00 TMC2225_IHOLD_FIELD 10 = Inr 0x00001F0A \<and>
   tmc2240_fieldUpdate 0 TMC2225_IHOLD_FIELD 10 = Inr 0x0000000A \<and>
   tmc2240_fieldUpdate 0x0000000A TMC2225_IRUN_FIELD 31 = Inr 0x00001F0A"
proof -
  have d: "mask_f TMC2225_IRUN_FIELD AND mask_f TMC2225_IHOLD_FIELD = 0"
    by (simp add: TMC2225_IRUN_FIELD_def TMC2225_IHOLD_FIELD_def)
  have s1: "unat (shift TMC2225_IRUN_FIELD) < 32"
    by (simp add: TMC2225_IRUN_FIELD_def)
  have s2: "unat (shift TMC2225_IHOLD_FIELD) < 32"
    by (simp add: TMC2225_IHOLD_FIELD_def)
  have a: "tmc2240_fieldUpdate 0 TMC2225_IRUN_FIELD 31 = Inr 0x00001F00"
    by (simp add: tmc2240_fieldUpdate_def TMC2225_IRUN_FIELD_def)
  have b: "tmc2240_fieldUpdate 0 TMC2225_IHOLD_FIELD 10 = Inr 0x0000000A"
    by (simp add: tmc2240_fieldUpdate_def TMC2225_IHOLD_FIELD_def)
  have w: "tmc2240_fieldUpdate 0x00001F00 TMC2225_IHOLD_FIELD 10 = Inr 0x00001F0A"
    by (simp add: tmc2240_fieldUpdate_def TMC2225_IHOLD_FIELD_def)
  from fieldUpdate_disjoint_commute [OF d s1 s2, of 0 31 10] a b w
  have "tmc2240_fieldUpdate 0x0000000A TMC2225_IRUN_FIELD 31 = Inr 0x00001F0A"
    by simp
  with d s1 s2 a b w show ?thesis
    by simp
qed

text \<open>
  C5. For every chip \<open>icID\<close>, field \<open>F\<close> (with a shift count below 32) and value \<open>v\<close>, and
  whatever the two register functions are: the field write reads the current value of the
  register at the address of \<open>F\<close>, applies the field update to it, and passes exactly
  that result to the register write, at the same chip and address and in the state the
  read has left.
\<close>

theorem fieldWrite_read_modify_write:
  assumes "unat (shift F) < 32"
  shows "\<exists>cur s1 new.
           readRegister s icID (address F) = (cur, s1) \<and>
           tmc2240_fieldUpdate cur F v = Inr new \<and>
           tmc2240_fieldWrite readRegister writeRegister s icID F v =
             Inr (writeRegister s1 icID (address F) new)"
proof -
  obtain cur s1 where rd: "readRegister s icID (address F) = (cur, s1)"
    by (cases "readRegister s icID (address F)")
  from assms obtain new where up: "tmc2240_fieldUpdate cur F v = Inr new"
    by (simp add: tmc2240_fieldUpdate_def)
  from rd up show ?thesis
    by (simp add: tmc2240_fieldWrite_def)
qed

theorem fieldWrite_read_modify_write_witness:
  "unat (shift TMC2225_I_SCALE_ANALOG_FIELD) < 32 \<and>
   bank_readRegister bank_after_reset 0 0x00 = (0x00002108, bank_after_reset) \<and>
   tmc2240_fieldUpdate 0x00002108 TMC2225_I_SCALE_ANALOG_FIELD 1 = Inr 0x00002109 \<and>
   tmc2240_fieldWrite bank_readRegister bank_writeRegister bank_after_reset 0
       TMC2225_I_SCALE_ANALOG_FIELD 1 =
     Inr (bank_writeRegister bank_after_reset 0 0x00 0x00002109)"
proof -
  have s: "unat (shift TMC2225_I_SCALE_ANALOG_FIELD) < 32"
    by (simp add: TMC2225_I_SCALE_ANALOG_FIELD_def)
  have a: "address TMC2225_I_SCALE_ANALOG_FIELD = 0x00"
    by (simp add: TMC2225_I_SCALE_ANALOG_FIELD_def)
  have rd: "bank_readRegister bank_after_reset 0 0x00 = (0x00002108, bank_after_reset)"
    by (simp add: bank_readRegister_def bank_after_reset_def R00_def)
  have up: "tmc2240_fieldUpdate 0x00002108 TMC2225_I_SCALE_ANALOG_FIELD 1 = Inr 0x00002109"
    by (simp add: tmc2240_fieldUpdate_def TMC2225_I_SCALE_ANALOG_FIELD_def)
  from fieldWrite_read_modify_write
    [OF s, of bank_readRegister bank_after_reset 0 1 bank_writeRegister]
  have "tmc2240_fieldWrite bank_readRegister bank_writeRegister bank_after_reset 0
          TMC2225_I_SCALE_ANALOG_FIELD 1 =
        Inr (bank_writeRegister bank_after_reset 0 0x00 0x00002109)"
    by (auto simp: a rd up)
  with s rd up show ?thesis
    by simp
qed

section \<open>Facts about the tables\<close>

lemma registerAccess_length: "length tmc2240_registerAccess = TMC2240_REGISTER_COUNT"
  by (simp add: tmc2240_registerAccess_def TMC2240_REGISTER_COUNT_def)

lemma sampleRegisterPreset_length:
  "length tmc2240_sampleRegisterPreset = TMC2240_REGISTER_COUNT"
  by (simp add: tmc2240_sampleRegisterPreset_def TMC2240_REGISTER_COUNT_def)

lemma registerAccess_entries:
  "list_all (\<lambda>x. x = 0x00 \<or> x = 0x01 \<or> x = 0x03 \<or> x = 0x23 \<or> x = 0x42) tmc2240_registerAccess"
  by (simp add: tmc2240_registerAccess_def)

lemma registerAccess_cases:
  assumes "a < TMC2240_REGISTER_COUNT"
  shows "tmc2240_registerAccess ! a \<in> {0x00, 0x01, 0x03, 0x23, 0x42}"
  using registerAccess_entries assms
  by (simp add: list_all_length registerAccess_length)

lemma permission_defined:
  assumes "unat addr < TMC2240_REGISTER_COUNT"
  shows "\<exists>p. permission addr = Some p"
  using registerAccess_cases [OF assms] assms
  by (auto simp: permission_def permission_of_byte_def)

lemma readable_iff_class:
  assumes "permission_of_byte x = Some p"
  shows "(TMC2240_IS_READABLE x \<noteq> 0) =
         (p = Read \<or> p = ReadWrite \<or> p = ReadWriteSplit \<or> p = Flag)"
  using assms
  by (auto simp: permission_of_byte_def TMC2240_IS_READABLE_def TMC2240_ACCESS_READ_def
           split: if_splits)

lemma write_only_not_readable:
  assumes "permission addr = Some p" and "write_only p"
  shows "\<not> physically_readable addr"
  using assms
  by (auto simp: physically_readable_def spec_physically_readable_def write_only_def)

lemma preset_slots_hold_N_A:
  "list_all (\<lambda>(acc, pre). acc = TMC2240_ACCESS_W_PRESET \<longrightarrow> pre = N_A)
     (zip tmc2240_registerAccess tmc2240_sampleRegisterPreset)"
  by (simp add: tmc2240_registerAccess_def tmc2240_sampleRegisterPreset_def
        TMC2240_ACCESS_W_PRESET_def)

lemma restore_writes_only_dirty:
  "(a, v) \<in> set (restore_writes st icID) \<Longrightarrow> tmc2240_dirtyBits st icID a"
  by (auto simp: restore_writes_def)

lemma restore_writes_dirty_register:
  assumes "unat a < TMC2240_REGISTER_COUNT" and "tmc2240_dirtyBits st icID a"
    and "tmc2240_registerAccess ! unat a \<noteq> 0x00"
  shows "(a, tmc2240_shadowRegister st icID a) \<in> set (restore_writes st icID)"
proof -
  have "a = of_nat (unat a)"
    by simp
  with assms(1) have "a \<in> set (map of_nat [0..<TMC2240_REGISTER_COUNT])"
    by (metis atLeastLessThan_iff image_eqI le0 list.set_map set_upt)
  with assms(2,3) show ?thesis
    by (simp add: restore_writes_def image_iff)
qed

lemma chip_0_in_range: "unat (0 :: 16 word) < TMC2240_IC_CACHE_COUNT"
  by (simp add: TMC2240_IC_CACHE_COUNT_def)

lemma MSLUT0_in_range: "unat (0x60 :: 8 word) < TMC2240_REGISTER_COUNT"
  by (simp add: TMC2240_REGISTER_COUNT_def)

lemma MSLUT0_permission: "permission 0x60 = Some WriteWithHardwarePreset"
  by (simp add: permission_def permission_of_byte_def tmc2240_registerAccess_def
        TMC2240_REGISTER_COUNT_def)

section \<open>Properties of the shadow cache\<close>

text \<open>
  C2. For every chip \<open>icID\<close> with a cache slot and every address of the table,
  FILL_DEFAULT stores the given value into the shadow register and changes no dirty flag
  and no other shadow register. So a dirty flag that was false is left false, and then the
  restore does not reissue the register; and a READ that follows on a write-only register
  returns the filled value.
\<close>

theorem cache_fill_default:
  assumes "unat icID < TMC2240_IC_CACHE_COUNT" and "unat addr < TMC2240_REGISTER_COUNT"
  shows "\<exists>st'. tmc2240_cache st icID TMC2240_CACHE_FILL_DEFAULT addr value = Inr (True, value, st') \<and>
           tmc2240_shadowRegister st' icID addr = value \<and>
           (\<forall>i a. (i, a) \<noteq> (icID, addr) \<longrightarrow>
              tmc2240_shadowRegister st' i a = tmc2240_shadowRegister st i a) \<and>
           tmc2240_dirtyBits st' = tmc2240_dirtyBits st \<and>
           (\<not> tmc2240_dirtyBits st icID addr \<longrightarrow>
              \<not> tmc2240_dirtyBits st' icID addr \<and> addr \<notin> fst ` set (restore_writes st' icID)) \<and>
           (\<forall>p. permission addr = Some p \<and> write_only p \<longrightarrow>
              tmc2240_cache st' icID TMC2240_CACHE_READ addr other = Inr (True, value, st'))"
proof -
  let ?st' = "st\<lparr>tmc2240_shadowRegister :=
                  (tmc2240_shadowRegister st)(icID := (tmc2240_shadowRegister st icID)(addr := value))\<rparr>"
  have fill: "tmc2240_cache st icID TMC2240_CACHE_FILL_DEFAULT addr value = Inr (True, value, ?st')"
    using assms by (simp add: tmc2240_cache_def)
  have others: "tmc2240_shadowRegister ?st' i a = tmc2240_shadowRegister st i a"
    if "(i, a) \<noteq> (icID, addr)" for i a
    using that by auto
  have restore: "addr \<notin> fst ` set (restore_writes ?st' icID)"
    if "\<not> tmc2240_dirtyBits st icID addr"
    using that restore_writes_only_dirty [of addr _ ?st' icID] by auto
  have rd: "tmc2240_cache ?st' icID TMC2240_CACHE_READ addr other = Inr (True, value, ?st')"
    if "permission addr = Some p" and "write_only p" for p
    using assms write_only_not_readable [OF that] by (simp add: tmc2240_cache_def)
  show ?thesis
  proof (intro exI [of _ ?st'] conjI allI impI)
    show "tmc2240_cache st icID TMC2240_CACHE_FILL_DEFAULT addr value = Inr (True, value, ?st')"
      by (rule fill)
    show "tmc2240_shadowRegister ?st' icID addr = value"
      by simp
    show "tmc2240_shadowRegister ?st' i a = tmc2240_shadowRegister st i a"
      if "(i, a) \<noteq> (icID, addr)" for i a
      by (rule others [OF that])
    show "tmc2240_dirtyBits ?st' = tmc2240_dirtyBits st"
      by simp
    show "\<not> tmc2240_dirtyBits ?st' icID addr" if "\<not> tmc2240_dirtyBits st icID addr"
      using that by simp
    show "addr \<notin> fst ` set (restore_writes ?st' icID)" if "\<not> tmc2240_dirtyBits st icID addr"
      by (rule restore [OF that])
    show "tmc2240_cache ?st' icID TMC2240_CACHE_READ addr other = Inr (True, value, ?st')"
      if "permission addr = Some p \<and> write_only p" for p
      using that rd by blast
  qed
qed

theorem cache_fill_default_witness:
  "unat (0 :: 16 word) < TMC2240_IC_CACHE_COUNT \<and> unat (0x60 :: 8 word) < TMC2240_REGISTER_COUNT \<and>
   \<not> tmc2240_dirtyBits cache_at_startup 0 0x60 \<and>
   permission 0x60 = Some WriteWithHardwarePreset \<and> write_only WriteWithHardwarePreset \<and>
   (\<exists>st'. tmc2240_cache cache_at_startup 0 TMC2240_CACHE_FILL_DEFAULT 0x60 0xAAAAB554 =
             Inr (True, 0xAAAAB554, st') \<and>
          tmc2240_shadowRegister st' 0 0x60 = 0xAAAAB554 \<and>
          \<not> tmc2240_dirtyBits st' 0 0x60 \<and>
          0x60 \<notin> fst ` set (restore_writes st' 0) \<and>
          tmc2240_cache st' 0 TMC2240_CACHE_READ 0x60 0 = Inr (True, 0xAAAAB554, st'))"
proof -
  have d: "\<not> tmc2240_dirtyBits cache_at_startup 0 0x60"
    by (simp add: cache_at_startup_def)
  have w: "write_only WriteWithHardwarePreset"
    by (simp add: write_only_def)
  from cache_fill_default [OF chip_0_in_range MSLUT0_in_range, of cache_at_startup "0xAAAAB554" 0]
    d MSLUT0_permission w
  have "\<exists>st'. tmc2240_cache cache_at_startup 0 TMC2240_CACHE_FILL_DEFAULT 0x60 0xAAAAB554 =
             Inr (True, 0xAAAAB554, st') \<and>
          tmc2240_shadowRegister st' 0 0x60 = 0xAAAAB554 \<and>
          \<not> tmc2240_dirtyBits st' 0 0x60 \<and>
          0x60 \<notin> fst ` set (restore_writes st' 0) \<and>
          tmc2240_cache st' 0 TMC2240_CACHE_READ 0x60 0 = Inr (True, 0xAAAAB554, st')"
    by blast
  with chip_0_in_range MSLUT0_in_range d MSLUT0_permission w show ?thesis
    by blast
qed

text \<open>
  C3. For every chip \<open>icID\<close> with a cache slot, every address of the table and every
  value, WRITE stores the value into the shadow register and sets the dirty flag of the
  register, whatever its permission is. A READ that follows on a write-only register
  returns exactly the written value, and the restore reissues the register with that
  value when its permission is not none.
\<close>

theorem cache_write:
  assumes "unat icID < TMC2240_IC_CACHE_COUNT" and "unat addr < TMC2240_REGISTER_COUNT"
  shows "\<exists>st'. tmc2240_cache st icID TMC2240_CACHE_WRITE addr value = Inr (True, value, st') \<and>
           tmc2240_shadowRegister st' icID addr = value \<and>
           tmc2240_dirtyBits st' icID addr \<and>
           (\<forall>p. permission addr = Some p \<and> write_only p \<longrightarrow>
              tmc2240_cache st' icID TMC2240_CACHE_READ addr other = Inr (True, value, st')) \<and>
           (tmc2240_registerAccess ! unat addr \<noteq> 0x00 \<longrightarrow>
              (addr, value) \<in> set (restore_writes st' icID))"
proof -
  let ?st' = "st\<lparr>tmc2240_shadowRegister :=
                  (tmc2240_shadowRegister st)(icID := (tmc2240_shadowRegister st icID)(addr := value)),
                tmc2240_dirtyBits :=
                  (tmc2240_dirtyBits st)(icID := (tmc2240_dirtyBits st icID)(addr := True))\<rparr>"
  have wr: "tmc2240_cache st icID TMC2240_CACHE_WRITE addr value = Inr (True, value, ?st')"
    using assms by (simp add: tmc2240_cache_def)
  have sh: "tmc2240_shadowRegister ?st' icID addr = value"
    and di: "tmc2240_dirtyBits ?st' icID addr"
    by simp_all
  have rd: "tmc2240_cache ?st' icID TMC2240_CACHE_READ addr other = Inr (True, value, ?st')"
    if "permission addr = Some p" and "write_only p" for p
    using assms write_only_not_readable [OF that] by (simp add: tmc2240_cache_def)
  have re: "(addr, value) \<in> set (restore_writes ?st' icID)"
    if "tmc2240_registerAccess ! unat addr \<noteq> 0x00"
    using restore_writes_dirty_register [OF assms(2) di that] by (simp only: sh)
  show ?thesis
  proof (intro exI [of _ ?st'] conjI allI impI)
    show "tmc2240_cache st icID TMC2240_CACHE_WRITE addr value = Inr (True, value, ?st')"
      by (rule wr)
    show "tmc2240_shadowRegister ?st' icID addr = value"
      by (rule sh)
    show "tmc2240_dirtyBits ?st' icID addr"
      by (rule di)
    show "tmc2240_cache ?st' icID TMC2240_CACHE_READ addr other = Inr (True, value, ?st')"
      if "permission addr = Some p \<and> write_only p" for p
      using that rd by blast
    show "(addr, value) \<in> set (restore_writes ?st' icID)"
      if "tmc2240_registerAccess ! unat addr \<noteq> 0x00"
      by (rule re [OF that])
  qed
qed

theorem cache_write_witness:
  "unat (0 :: 16 word) < TMC2240_IC_CACHE_COUNT \<and>
   unat (0x60 :: 8 word) < TMC2240_REGISTER_COUNT \<and> unat (0x00 :: 8 word) < TMC2240_REGISTER_COUNT \<and>
   permission 0x60 = Some WriteWithHardwarePreset \<and> write_only WriteWithHardwarePreset \<and>
   tmc2240_registerAccess ! unat (0x60 :: 8 word) \<noteq> 0x00 \<and>
   (\<exists>st'. tmc2240_cache cache_at_startup 0 TMC2240_CACHE_WRITE 0x60 0x12345678 =
             Inr (True, 0x12345678, st') \<and>
          tmc2240_shadowRegister st' 0 0x60 = 0x12345678 \<and>
          tmc2240_dirtyBits st' 0 0x60 \<and>
          tmc2240_cache st' 0 TMC2240_CACHE_READ 0x60 0 = Inr (True, 0x12345678, st') \<and>
          (0x60, 0x12345678) \<in> set (restore_writes st' 0)) \<and>
   permission 0x00 = Some ReadWrite \<and>
   (\<exists>st'. tmc2240_cache cache_at_startup 0 TMC2240_CACHE_WRITE 0x00 0x00002109 =
             Inr (True, 0x00002109, st') \<and>
          tmc2240_shadowRegister st' 0 0x00 = 0x00002109 \<and>
          tmc2240_dirtyBits st' 0 0x00)"
proof -
  have w: "write_only WriteWithHardwarePreset"
    by (simp add: write_only_def)
  have e: "tmc2240_registerAccess ! unat (0x60 :: 8 word) \<noteq> 0x00"
    by (simp add: tmc2240_registerAccess_def)
  have g: "unat (0x00 :: 8 word) < TMC2240_REGISTER_COUNT"
    by (simp add: TMC2240_REGISTER_COUNT_def)
  have p: "permission 0x00 = Some ReadWrite"
    by (simp add: permission_def permission_of_byte_def tmc2240_registerAccess_def
          TMC2240_REGISTER_COUNT_def)
  from cache_write [OF chip_0_in_range MSLUT0_in_range, of cache_at_startup "0x12345678" 0]
    MSLUT0_permission w e
  have a: "\<exists>st'. tmc2240_cache cache_at_startup 0 TMC2240_CACHE_WRITE 0x60 0x12345678 =
             Inr (True, 0x12345678, st') \<and>
          tmc2240_shadowRegister st' 0 0x60 = 0x12345678 \<and>
          tmc2240_dirtyBits st' 0 0x60 \<and>
          tmc2240_cache st' 0 TMC2240_CACHE_READ 0x60 0 = Inr (True, 0x12345678, st') \<and>
          (0x60, 0x12345678) \<in> set (restore_writes st' 0)"
    by blast
  from cache_write [OF chip_0_in_range g, of cache_at_startup "0x00002109" 0]
  have b: "\<exists>st'. tmc2240_cache cache_at_startup 0 TMC2240_CACHE_WRITE 0x00 0x00002109 =
             Inr (True, 0x00002109, st') \<and>
          tmc2240_shadowRegister st' 0 0x00 = 0x00002109 \<and>
          tmc2240_dirtyBits st' 0 0x00"
    by blast
  from chip_0_in_range MSLUT0_in_range g MSLUT0_permission w e a p b show ?thesis
    by (intro conjI)
qed

text \<open>
  C4. For every chip with a cache slot and every address of the table, the register has one
  of the seven permissions, and READ declines exactly when the permission is one of the
  physically readable ones: Read, ReadWrite or the split register. For every other
  permission it returns the shadow value as the logical value and leaves the cache as it
  is. In particular READ on a ReadWrite register is declined.
\<close>

theorem cache_read_declines_iff_physically_readable:
  assumes "unat icID < TMC2240_IC_CACHE_COUNT" and "unat addr < TMC2240_REGISTER_COUNT"
  shows "\<exists>p. permission addr = Some p \<and>
           tmc2240_cache st icID TMC2240_CACHE_READ addr value =
             (if p = Read \<or> p = ReadWrite \<or> p = ReadWriteSplit
              then Inr (False, value, st)
              else Inr (True, tmc2240_shadowRegister st icID addr, st))"
proof -
  from permission_defined [OF assms(2)] obtain p where p: "permission addr = Some p" ..
  then have "physically_readable addr = (p = Read \<or> p = ReadWrite \<or> p = ReadWriteSplit)"
    by (simp add: physically_readable_def spec_physically_readable_def)
  with assms p show ?thesis
    by (simp add: tmc2240_cache_def)
qed

theorem cache_read_declines_iff_physically_readable_witness:
  "unat (0 :: 16 word) < TMC2240_IC_CACHE_COUNT \<and>
   unat (0x60 :: 8 word) < TMC2240_REGISTER_COUNT \<and> unat (0x00 :: 8 word) < TMC2240_REGISTER_COUNT \<and>
   permission 0x60 = Some WriteWithHardwarePreset \<and>
   tmc2240_cache cache_at_startup 0 TMC2240_CACHE_READ 0x60 7 =
     Inr (True, tmc2240_shadowRegister cache_at_startup 0 0x60, cache_at_startup) \<and>
   permission 0x00 = Some ReadWrite \<and>
   tmc2240_cache cache_at_startup 0 TMC2240_CACHE_READ 0x00 7 = Inr (False, 7, cache_at_startup)"
proof -
  have g: "unat (0x00 :: 8 word) < TMC2240_REGISTER_COUNT"
    by (simp add: TMC2240_REGISTER_COUNT_def)
  have p: "permission 0x00 = Some ReadWrite"
    by (simp add: permission_def permission_of_byte_def tmc2240_registerAccess_def
          TMC2240_REGISTER_COUNT_def)
  from cache_read_declines_iff_physically_readable
    [OF chip_0_in_range MSLUT0_in_range, of cache_at_startup 7] MSLUT0_permission
  have a: "tmc2240_cache cache_at_startup 0 TMC2240_CACHE_READ 0x60 7 =
     Inr (True, tmc2240_shadowRegister cache_at_startup 0 0x60, cache_at_startup)"
    by auto
  from cache_read_declines_iff_physically_readable
    [OF chip_0_in_range g, of cache_at_startup 7] p
  have b: "tmc2240_cache cache_at_startup 0 TMC2240_CACHE_READ 0x00 7 =
     Inr (False, 7, cache_at_startup)"
    by auto
  from chip_0_in_range MSLUT0_in_range g MSLUT0_permission a p b show ?thesis
    by (intro conjI)
qed

section \<open>Properties of the preset table\<close>

text \<open>
  C8, as the code has it. The marker \<open>N_A\<close> of a hardware preset is the value 0, the
  same value a slot without a default holds, so an entry of the table does not tell the
  two cases apart. What tells them apart is the permission table: every register whose
  permission is \<^verbatim>\<open>TMC2240_ACCESS_W_PRESET\<close> has \<open>N_A\<close> in its slot.
\<close>

theorem preset_markers_coincide:
  "N_A = NO_DEFAULT \<and>
   (\<forall>a < TMC2240_REGISTER_COUNT.
      tmc2240_registerAccess ! a = TMC2240_ACCESS_W_PRESET \<longrightarrow>
      tmc2240_sampleRegisterPreset ! a = N_A)"
proof -
  have "tmc2240_sampleRegisterPreset ! a = N_A"
    if "a < TMC2240_REGISTER_COUNT" and "tmc2240_registerAccess ! a = TMC2240_ACCESS_W_PRESET"
    for a
    using preset_slots_hold_N_A that
    by (simp add: list_all_length registerAccess_length sampleRegisterPreset_length)
  then show ?thesis
    by (simp add: N_A_def NO_DEFAULT_def)
qed

theorem preset_markers_coincide_witness:
  "(0x60 :: nat) < TMC2240_REGISTER_COUNT \<and>
   tmc2240_registerAccess ! 0x60 = TMC2240_ACCESS_W_PRESET \<and>
   tmc2240_sampleRegisterPreset ! 0x60 = N_A \<and> N_A = NO_DEFAULT"
proof -
  have r: "(0x60 :: nat) < TMC2240_REGISTER_COUNT"
    by (simp add: TMC2240_REGISTER_COUNT_def)
  have a: "tmc2240_registerAccess ! 0x60 = TMC2240_ACCESS_W_PRESET"
    by (simp add: tmc2240_registerAccess_def TMC2240_ACCESS_W_PRESET_def)
  from preset_markers_coincide r a show ?thesis
    by blast
qed

text \<open>
  The claim C8 as it is stated fails: the two markers are the same value, and the entry of
  the hardware-preset slot \<open>0x60\<close> equals the entry of slot \<open>0x05\<close>, an address with no
  register and no default.
\<close>

theorem preset_markers_not_distinct:
  "N_A = NO_DEFAULT \<and>
   tmc2240_registerAccess ! 0x60 = TMC2240_ACCESS_W_PRESET \<and>
   tmc2240_registerAccess ! 0x05 = 0x00 \<and>
   tmc2240_sampleRegisterPreset ! 0x60 = tmc2240_sampleRegisterPreset ! 0x05"
  by (simp add: N_A_def NO_DEFAULT_def tmc2240_sampleRegisterPreset_def
        tmc2240_registerAccess_def TMC2240_ACCESS_W_PRESET_def)

text \<open>
  C9 at address \<open>0x1B\<close>. The preset table holds \<open>R2B\<close> there, which is neither marker,
  and the permission table has no register at this address. The constant carries the
  address \<open>0x2B\<close> in its name, as every other constant of the table carries the index of
  its slot, and slot \<open>0x2B\<close> of the preset table is empty; neither address has a
  register.
\<close>

theorem sampleRegisterPreset_R2B_without_register:
  "tmc2240_sampleRegisterPreset ! 0x1B = R2B \<and> R2B \<noteq> NO_DEFAULT \<and> R2B \<noteq> N_A \<and>
   permission 0x1B = Some NoPermission \<and>
   tmc2240_sampleRegisterPreset ! 0x2B = NO_DEFAULT \<and> permission 0x2B = Some NoPermission"
  by (simp add: N_A_def NO_DEFAULT_def tmc2240_sampleRegisterPreset_def R2B_def
        tmc2240_registerAccess_def permission_def permission_of_byte_def
        TMC2240_REGISTER_COUNT_def)

text \<open>
  At every other address an entry of the preset table that is not 0 belongs to a register
  with a permission.
\<close>

lemma sampleRegisterPreset_defaults_elsewhere:
  "list_all (\<lambda>(a, acc, pre). a \<noteq> 0x1B \<longrightarrow> pre \<noteq> NO_DEFAULT \<longrightarrow> acc \<noteq> 0x00)
     (zip [0..<128] (zip tmc2240_registerAccess tmc2240_sampleRegisterPreset))"
  by (simp add: tmc2240_registerAccess_def tmc2240_sampleRegisterPreset_def NO_DEFAULT_def
        N_A_def R00_def R0A_def R10_def R11_def R2B_def R3A_def R52_def R6C_def R70_def
        upt_conv_Cons)

end
